theory Spec2Isabelle
  imports Main "HOL-Library.Word"
begin

section \<open>Data model of logger.go\<close>

subsection \<open>Level (logger.go, lines 16 to 40)\<close>

text \<open>
  \<^verbatim>\<open>type Level int8\<close>, with the constants given by \<^verbatim>\<open>iota - 1\<close>: the first constant
  of the block has \<^verbatim>\<open>iota = 0\<close>, the following ones repeat the expression with
  \<^verbatim>\<open>iota\<close> = 1, 2, ... The type is a signed 8-bit integer, so the order of Go's
  \<^verbatim>\<open><\<close> and \<^verbatim>\<open>>=\<close> on it is the signed order of \<open>8 word\<close>.
\<close>

type_synonym Level = "8 word"

definition DebugLevel :: Level where "DebugLevel = 0 - 1"
definition InfoLevel :: Level where "InfoLevel = 1 - 1"
definition WarnLevel :: Level where "WarnLevel = 2 - 1"
definition ErrorLevel :: Level where "ErrorLevel = 3 - 1"
definition DPanicLevel :: Level where "DPanicLevel = 4 - 1"
definition PanicLevel :: Level where "PanicLevel = 5 - 1"
definition FatalLevel :: Level where "FatalLevel = 6 - 1"

subsection \<open>Options and LogInfo (logger.go, lines 42 to 61)\<close>

text \<open>
  Go's \<^verbatim>\<open>int\<close> fields are passed on unchanged and never computed with in logger.go,
  so they are integers here. A field missing from a composite literal has its zero
  value: \<open>False\<close>, \<open>0\<close>, the empty string.
\<close>

record Options =
  NotStdout :: bool
  Level :: Level
  Filename :: string
  MaxSize :: int
  MaxBackups :: int
  MaxAge :: int
  Compress :: bool

text \<open>
  \<^verbatim>\<open>LogInfo\<close>; the fields carry the prefix \<open>li\<close> because \<open>Level\<close> is a field of
  \<open>Options\<close> already. \<^verbatim>\<open>time.Time\<close> is an opaque instant, here a number.
\<close>

record LogInfo =
  li_Level :: Level
  li_Time :: int
  li_LoggerName :: string
  li_Message :: string
  li_Stack :: string
  li_File :: string
  li_Line :: int

subsection \<open>What logger.go uses of lumberjack and zapcore\<close>

text \<open>
  \<^verbatim>\<open>lumberjack.Logger\<close> as logger.go builds it: the five fields that
  \<^verbatim>\<open>getLogWriter\<close> sets.
\<close>

record LumberjackLogger =
  lj_Filename :: string
  lj_MaxSize :: int
  lj_MaxBackups :: int
  lj_MaxAge :: int
  lj_Compress :: bool

text \<open>
  A \<^verbatim>\<open>zapcore.WriteSyncer\<close> of logger.go is one of two things:
  \<^verbatim>\<open>zapcore.AddSync(os.Stdout)\<close> or \<^verbatim>\<open>zapcore.AddSync(lumberJackLogger)\<close>.
\<close>

datatype WriteSyncer = Stdout | FileSyncer LumberjackLogger

text \<open>
  \<^verbatim>\<open>zapcore.Entry\<close>, the fields that \<^verbatim>\<open>hooksHandler\<close> reads
  (\<^verbatim>\<open>entity.Caller.File\<close> and \<^verbatim>\<open>entity.Caller.Line\<close> flattened).
\<close>

record Entry =
  ent_Level :: Level
  ent_Time :: int
  ent_LoggerName :: string
  ent_Message :: string
  ent_Stack :: string
  ent_Caller_File :: string
  ent_Caller_Line :: int

text \<open>
  \<^verbatim>\<open>zapcore.NewCore(encoder, ws, zapcore.Level(opt.Level))\<close>: a writer and a minimum
  level; the conversion \<^verbatim>\<open>zapcore.Level(opt.Level)\<close> is between two \<^verbatim>\<open>int8\<close> types
  and keeps the value. The encoder is the same opaque function in every core (it
  is a parameter of the emission below). \<^verbatim>\<open>zapcore.NewTee\<close> holds its cores in order.
\<close>

record ioCore =
  out :: WriteSyncer
  minLevel :: Level

datatype Core = NewCore ioCore | NewTee "ioCore list"

text \<open>
  Modelled from the spec: the level test of a core that \<^verbatim>\<open>NewCore\<close> builds.
  zapcore is imported (logger.go, lines 10 and 11) and its source is not part of
  this repository; section 4.3 gives the contract "accept(level) = level >=
  configured minimum (using Level's total order)", which is zapcore's
  \<^verbatim>\<open>func (l Level) Enabled(lvl Level) bool { return lvl >= l }\<close> on \<^verbatim>\<open>int8\<close>.
\<close>

definition Enabled :: "Level \<Rightarrow> Level \<Rightarrow> bool" where
  "Enabled l lvl = (l <=s lvl)"

section \<open>Package state and hooks\<close>

text \<open>
  A hook is a value of type \<^verbatim>\<open>func(LogInfo) error\<close>: a function, for which the
  type \<open>'h\<close> stands, or nil. A hook value is therefore an \<open>'h option\<close>, with
  \<open>None\<close> for nil. What the program does with a function is to call it, which is
  recorded as an event. Events are the observable effects of the package: a
  \<^verbatim>\<open>Write\<close> on a writer with the bytes written, and the call of a hook with its
  argument.
\<close>

datatype 'h event = Wrote WriteSyncer string | Invoked 'h LogInfo

text \<open>
  The closure \<^verbatim>\<open>resHook\<close> of \<^verbatim>\<open>hooksHandler\<close> captures the loop variable
  \<^verbatim>\<open>hook\<close> by reference: its value is the address of that variable in the store.
  The store is a list of cells, an address is an index, and a cell holds a hook
  value (\<open>None\<close> for the nil function).
\<close>

datatype resHook = ResHook nat

type_synonym 'h store = "'h option list"

record Logger =
  core :: Core
  funcs :: "resHook list"

text \<open>
  The package-level variables (logger.go, lines 63 to 70); a nil pointer is
  \<open>None\<close>. The store of captured variables is part of the state.
\<close>

record 'h Globals =
  logger :: "Logger option"
  fileWirtor :: "WriteSyncer option"
  stdWirtor :: "WriteSyncer option"
  heap :: "'h store"

definition zero_Globals :: "'h Globals" where
  "zero_Globals = \<lparr>logger = None, fileWirtor = None, stdWirtor = None, heap = []\<rparr>"

subsection \<open>hooksHandler (logger.go, lines 118 to 135)\<close>

text \<open>
  go.mod declares \<^verbatim>\<open>go 1.19\<close>. In that language version the variable of a
  \<^verbatim>\<open>for _, hook := range hooks\<close> statement is one variable for the whole loop,
  assigned anew in each iteration. The loop below runs at the address \<open>a\<close> of that
  variable: an iteration stores the element, nil or not, in the cell and appends
  a closure that holds the address. Nothing in the loop calls or tests the
  element.
\<close>

fun range_hooks ::
  "nat \<Rightarrow> 'h option list \<Rightarrow> 'h store \<Rightarrow> resHook list \<Rightarrow> resHook list \<times> 'h store" where
  "range_hooks a [] hp resHooks = (resHooks, hp)"
| "range_hooks a (hook # hooks) hp resHooks =
     range_hooks a hooks (hp[a := hook]) (resHooks @ [ResHook a])"

definition hooksHandler :: "'h option list \<Rightarrow> 'h store \<Rightarrow> resHook list \<times> 'h store" where
  "hooksHandler hooks hp = range_hooks (length hp) hooks (hp @ [None]) []"

definition toLogInfo :: "Entry \<Rightarrow> LogInfo" where
  "toLogInfo entity =
     \<lparr>li_Level = ent_Level entity,
      li_Time = ent_Time entity,
      li_LoggerName = ent_LoggerName entity,
      li_Message = ent_Message entity,
      li_Stack = ent_Stack entity,
      li_File = ent_Caller_File entity,
      li_Line = ent_Caller_Line entity\<rparr>"

text \<open>
  Calling a closure reads the captured variable at the time of the call and calls
  the function found there with the converted entry. \<open>None\<close> is the panic of
  calling a nil function.
\<close>

fun call_resHook :: "'h store \<Rightarrow> Entry \<Rightarrow> resHook \<Rightarrow> 'h event option" where
  "call_resHook hp entity (ResHook a) =
     (if a < length hp
      then (case hp ! a of None \<Rightarrow> None | Some hook \<Rightarrow> Some (Invoked hook (toLogInfo entity)))
      else None)"

subsection \<open>getLogWriter, InitLogger, init, GetLogWirter, GetDefault\<close>

definition getLogWriter :: "Options \<Rightarrow> WriteSyncer" where
  "getLogWriter opt =
     FileSyncer \<lparr>lj_Filename = Filename opt,
                 lj_MaxSize = MaxSize opt,
                 lj_MaxBackups = MaxBackups opt,
                 lj_MaxAge = MaxAge opt,
                 lj_Compress = Compress opt\<rparr>"

text \<open>
  \<^verbatim>\<open>InitLogger\<close>: the three branches in the order of the source. \<^verbatim>\<open>*fileWirtor\<close>
  is the writer assigned two lines above. \<^verbatim>\<open>zap.Hooks\<close> keeps the closures in the
  order of the slice; \<^verbatim>\<open>AddCaller\<close> and \<^verbatim>\<open>AddCallerSkip\<close> only change how the
  caller fields of an entry are filled.
\<close>

definition InitLogger :: "Options \<Rightarrow> 'h option list \<Rightarrow> 'h Globals \<Rightarrow> 'h Globals" where
  "InitLogger opt hooks g =
     (let fw = getLogWriter opt;
          g1 = g\<lparr>fileWirtor := Some fw\<rparr>;
          (treeCore, g2) =
            (if NotStdout opt \<and> Filename opt \<noteq> []
             then (NewCore \<lparr>out = fw, minLevel = Level opt\<rparr>, g1)
             else if Filename opt = [] \<and> \<not> NotStdout opt
             then (NewCore \<lparr>out = Stdout, minLevel = Level opt\<rparr>,
                   g1\<lparr>stdWirtor := Some Stdout\<rparr>)
             else (NewTee [\<lparr>out = Stdout, minLevel = Level opt\<rparr>,
                           \<lparr>out = fw, minLevel = Level opt\<rparr>],
                   g1\<lparr>stdWirtor := Some Stdout\<rparr>));
          (resHooks, hp) = hooksHandler hooks (heap g2)
      in g2\<lparr>logger := Some \<lparr>core = treeCore, funcs = resHooks\<rparr>, heap := hp\<rparr>)"

text \<open>
  The value that the three branches of \<^verbatim>\<open>InitLogger\<close> give the local variable
  \<^verbatim>\<open>treeCore\<close>, as a function of the options alone; \<open>logger_InitLogger\<close> below
  proves that this is the core of the logger that \<^verbatim>\<open>InitLogger\<close> stores.
\<close>

definition treeCore :: "Options \<Rightarrow> Core" where
  "treeCore opt =
     (if NotStdout opt \<and> Filename opt \<noteq> []
      then NewCore \<lparr>out = getLogWriter opt, minLevel = Level opt\<rparr>
      else if Filename opt = [] \<and> \<not> NotStdout opt
      then NewCore \<lparr>out = Stdout, minLevel = Level opt\<rparr>
      else NewTee [\<lparr>out = Stdout, minLevel = Level opt\<rparr>,
                   \<lparr>out = getLogWriter opt, minLevel = Level opt\<rparr>])"

text \<open>\<^verbatim>\<open>func init()\<close>: run once at package load, on the zero values of the variables.\<close>

definition init_Options :: Options where
  "init_Options =
     \<lparr>NotStdout = False, Level = DebugLevel, Filename = [], MaxSize = 0,
      MaxBackups = 0, MaxAge = 0, Compress = False\<rparr>"

definition init :: "'h Globals" where
  "init = InitLogger init_Options [] zero_Globals"

text \<open>
  \<^verbatim>\<open>GetLogWirter\<close> returns the pair \<^verbatim>\<open>(io.Writer, error)\<close>; the error is
  \<^verbatim>\<open>errors.New\<close> of a fixed message (in Chinese: call this after initialising the
  log component). Dereferencing a nil \<^verbatim>\<open>fileWirtor\<close> panics. The function assigns
  nothing; the state is returned as it was received.
\<close>

datatype error = ErrNotInitialised

datatype 'a outcome = Returned 'a | Panicked

definition GetLogWirter ::
  "'h Globals \<Rightarrow> (WriteSyncer option \<times> error option) outcome \<times> 'h Globals" where
  "GetLogWirter g =
     (if logger g = None then (Returned (None, Some ErrNotInitialised), g)
      else (case fileWirtor g of
              None \<Rightarrow> (Panicked, g)
            | Some fw \<Rightarrow> (Returned (Some fw, None), g)))"

text \<open>\<^verbatim>\<open>GetDefault\<close> leaves \<^verbatim>\<open>NotStdout\<close> and \<^verbatim>\<open>Level\<close> out: they are zero values.\<close>

definition GetDefault :: "string \<Rightarrow> Options" where
  "GetDefault filename =
     \<lparr>NotStdout = False, Level = 0, Filename = filename, MaxSize = 100,
      MaxBackups = 10, MaxAge = 30, Compress = False\<rparr>"

section \<open>Emission\<close>

text \<open>
  Modelled from the spec: the zap logger that \<^verbatim>\<open>zap.New\<close> returns and its
  \<^verbatim>\<open>Sugar\<close>, whose source is not part of this repository. Sections 4.3, 4.4
  and 8: an entry that no core accepts gives no write and no hook call; an
  accepted entry is encoded, written once to every sink whose core accepts it,
  in the order of the tee, and then every function registered as a hook (here
  the closures that \<^verbatim>\<open>hooksHandler\<close> returns) is called once with the entry, in
  registration order, whatever the writes and the earlier hooks returned. The
  encoder \<open>enc\<close> is the opaque formatter.

  A panic is not a returned failure: nothing recovers it, and it ends the
  emission where it happens. The result of an emission is the trace of its
  events, and whether the call returned (\<open>Done\<close>) or panicked after them
  (\<open>PanicAfter\<close>).
\<close>

datatype 'h emission = Done "'h event list" | PanicAfter "'h event list"

text \<open>The closures are called in order; the first one that panics ends the calls.\<close>

fun call_hooks :: "'h store \<Rightarrow> Entry \<Rightarrow> resHook list \<Rightarrow> 'h emission" where
  "call_hooks hp ent [] = Done []"
| "call_hooks hp ent (f # fs) =
     (case call_resHook hp ent f of
        None \<Rightarrow> PanicAfter []
      | Some e \<Rightarrow>
          (case call_hooks hp ent fs of
             Done es \<Rightarrow> Done (e # es)
           | PanicAfter es \<Rightarrow> PanicAfter (e # es)))"

fun Check :: "Core \<Rightarrow> Entry \<Rightarrow> ioCore list" where
  "Check (NewCore c) ent = (if Enabled (minLevel c) (ent_Level ent) then [c] else [])"
| "Check (NewTee cs) ent = filter (\<lambda>c. Enabled (minLevel c) (ent_Level ent)) cs"

definition write_entry ::
  "(Entry \<Rightarrow> string) \<Rightarrow> 'h store \<Rightarrow> Logger \<Rightarrow> Entry \<Rightarrow> 'h emission" where
  "write_entry enc hp lg ent =
     (let cs = Check (core lg) ent
      in if cs = [] then Done []
         else (case call_hooks hp ent (funcs lg) of
                 Done calls \<Rightarrow> Done (map (\<lambda>c. Wrote (out c) (enc ent)) cs @ calls)
               | PanicAfter calls \<Rightarrow>
                   PanicAfter (map (\<lambda>c. Wrote (out c) (enc ent)) cs @ calls)))"

text \<open>
  The emission functions (logger.go, lines 167 to 283) all call the method of the
  same name on \<^verbatim>\<open>logger\<close>: the entry gets the level of the function, and a nil
  \<^verbatim>\<open>logger\<close> panics before anything is written. \<open>ent\<close> is the entry that zap builds from the
  arguments, the clock and the call site. The variants with a template
  (\<^verbatim>\<open>Debugf\<close>, ...) and with key-value pairs (\<^verbatim>\<open>Debugw\<close>, ...) differ from
  \<^verbatim>\<open>Debug\<close>, ... in how the message of the entry is built and go the same way.
  What \<^verbatim>\<open>Panic\<close> and \<^verbatim>\<open>Fatal\<close> do after the entry is written (panic, exit) is
  outside the events recorded here.
\<close>

definition log_at ::
  "(Entry \<Rightarrow> string) \<Rightarrow> Level \<Rightarrow> Entry \<Rightarrow> 'h Globals \<Rightarrow> 'h emission" where
  "log_at enc lvl ent g =
     (case logger g of
        None \<Rightarrow> PanicAfter []
      | Some lg \<Rightarrow> write_entry enc (heap g) lg (ent\<lparr>ent_Level := lvl\<rparr>))"


definition Info :: "(Entry \<Rightarrow> string) \<Rightarrow> Entry \<Rightarrow> 'h Globals \<Rightarrow> 'h emission" where
  "Info enc = log_at enc InfoLevel"






subsection \<open>Pure and Puref (logger.go, lines 286 to 307)\<close>

text \<open>
  \<^verbatim>\<open>fmt.Sprintln\<close> formats each operand in its default form, puts a space between
  operands and appends a newline. The default form of an operand is the parameter
  \<open>dflt\<close>; \<^verbatim>\<open>fmt.Sprintf\<close> is the parameter \<open>sprintf\<close>.
\<close>

fun Sprintln :: "('a \<Rightarrow> string) \<Rightarrow> 'a list \<Rightarrow> string" where
  "Sprintln dflt [] = [CHR 0x0A]"
| "Sprintln dflt [a] = dflt a @ [CHR 0x0A]"
| "Sprintln dflt (a # b # args) = dflt a @ '' '' @ Sprintln dflt (b # args)"

text \<open>The results of the two \<^verbatim>\<open>Write\<close> calls are discarded by the source.\<close>

definition write_raw :: "string \<Rightarrow> 'h Globals \<Rightarrow> 'h event list" where
  "write_raw bytes g =
     (case fileWirtor g of None \<Rightarrow> [] | Some fw \<Rightarrow> [Wrote fw bytes]) @
     (case stdWirtor g of None \<Rightarrow> [] | Some sw \<Rightarrow> [Wrote sw bytes])"

definition Pure :: "('a \<Rightarrow> string) \<Rightarrow> 'a list \<Rightarrow> 'h Globals \<Rightarrow> 'h event list" where
  "Pure dflt args g = write_raw (Sprintln dflt args) g"

definition Puref ::
  "(string \<Rightarrow> 'a list \<Rightarrow> string) \<Rightarrow> string \<Rightarrow> 'a list \<Rightarrow> 'h Globals \<Rightarrow> 'h event list" where
  "Puref sprintf msg args g = write_raw (sprintf msg args @ [CHR 0x0A]) g"

section \<open>Reading an event trace\<close>

fun writer_of :: "'h event \<Rightarrow> WriteSyncer option" where
  "writer_of (Wrote w b) = Some w"
| "writer_of (Invoked h i) = None"

fun hook_of :: "'h event \<Rightarrow> ('h \<times> LogInfo) option" where
  "hook_of (Wrote w b) = None"
| "hook_of (Invoked h i) = Some (h, i)"

text \<open>The writers written to and the hook calls made, each in order of occurrence.\<close>

definition writers :: "'h event list \<Rightarrow> WriteSyncer list" where
  "writers evs = List.map_filter writer_of evs"

definition hook_calls :: "'h event list \<Rightarrow> ('h \<times> LogInfo) list" where
  "hook_calls evs = List.map_filter hook_of evs"

text \<open>The sinks of a core: the writers its entries can reach.\<close>

fun sinks :: "Core \<Rightarrow> WriteSyncer list" where
  "sinks (NewCore c) = [out c]"
| "sinks (NewTee cs) = map out cs"

section \<open>States of the package\<close>

text \<open>
  The only function that assigns the package-level variables is \<^verbatim>\<open>InitLogger\<close>
  (\<^verbatim>\<open>init\<close> calls it). \<open>states_from g0 g\<close>: the program can be in state \<open>g\<close>
  when it started in \<open>g0\<close>. From \<open>zero_Globals\<close> these are the states seen from
  inside the package, before and after a pipeline is built; from \<open>init\<close>, the
  states that a program importing the package can observe.
\<close>

inductive states_from :: "'h Globals \<Rightarrow> 'h Globals \<Rightarrow> bool" for g0 :: "'h Globals" where
  start: "states_from g0 g0"
| call_InitLogger: "states_from g0 g \<Longrightarrow> states_from g0 (InitLogger opt hooks g)"

section \<open>The rotating file writer\<close>

text \<open>
  The writer behind \<^verbatim>\<open>fileWirtor\<close> is a \<^verbatim>\<open>lumberjack.Logger\<close> of
  \<^verbatim>\<open>gopkg.in/natefinch/lumberjack.v2\<close> (logger.go, line 12). The source of the
  library is not part of this repository; logger.go contains no rotation code of
  its own and
  \<^verbatim>\<open>getLogWriter\<close> hands \<^verbatim>\<open>MaxSize\<close> to it unchanged. The definitions of this
  section follow the library's \<^verbatim>\<open>lumberjack.go\<close>: the constants
  \<^verbatim>\<open>defaultMaxSize = 100\<close> and \<^verbatim>\<open>megabyte = 1024 * 1024\<close>, and the methods
  \<^verbatim>\<open>max\<close>, \<^verbatim>\<open>Write\<close>, \<^verbatim>\<open>openExistingOrNew\<close>, \<^verbatim>\<open>openNew\<close>, \<^verbatim>\<open>rotate\<close>
  and \<^verbatim>\<open>close\<close>, for file operations that succeed. A write is given by its
  length, the only thing about the bytes that the rotation reads.
  \<^verbatim>\<open>
  func (l *Logger) max() int64 {
      if l.MaxSize == 0 {
          return int64(defaultMaxSize * megabyte)
      }
      return int64(l.MaxSize) * int64(megabyte)
  }
  \<close>
\<close>

definition megabyte :: int where "megabyte = 1024 * 1024"

definition defaultMaxSize :: int where "defaultMaxSize = 100"

text \<open>
  The product of \<^verbatim>\<open>max\<close> is a product of \<^verbatim>\<open>int64\<close> values and wraps around.
  \<open>wrap64\<close> is the value that a 64-bit two's complement integer holds for the
  mathematical result \<open>x\<close>; \<^verbatim>\<open>MaxSize\<close> is a Go \<^verbatim>\<open>int\<close>, 64 bits wide on the
  platforms meant here, so that \<^verbatim>\<open>int64(l.MaxSize)\<close> keeps the value.
\<close>

definition wrap64 :: "int \<Rightarrow> int" where
  "wrap64 x = (x + 2 ^ 63) mod 2 ^ 64 - 2 ^ 63"

definition lj_max :: "LumberjackLogger \<Rightarrow> int" where
  "lj_max l =
     (if lj_MaxSize l = 0 then defaultMaxSize * megabyte
      else wrap64 (lj_MaxSize l * megabyte))"

text \<open>
  The log file at the writer's path: absent, on disk with a size and not open, or
  open with the size that the writer tracks (\<^verbatim>\<open>l.size\<close>). \<open>rotations\<close> counts
  the renames of the log file to a backup name; removing old backups afterwards
  (\<^verbatim>\<open>MaxBackups\<close>, \<^verbatim>\<open>MaxAge\<close>) does not undo a rotation and is left out.
\<close>

datatype LogFile = Absent | OnDisk int | Opened int

record LJState =
  cur :: LogFile
  rotations :: nat

fun closeFile :: "LJState \<Rightarrow> LJState" where
  "closeFile st = (case cur st of Opened sz \<Rightarrow> st\<lparr>cur := OnDisk sz\<rparr> | _ \<Rightarrow> st)"

text \<open>\<^verbatim>\<open>openNew\<close> renames a file that exists to a backup name, then creates the file.\<close>

fun openNew :: "LJState \<Rightarrow> LJState" where
  "openNew st =
     (case cur st of
        Absent \<Rightarrow> st\<lparr>cur := Opened 0\<rparr>
      | _ \<Rightarrow> st\<lparr>cur := Opened 0, rotations := Suc (rotations st)\<rparr>)"

definition rotate :: "LJState \<Rightarrow> LJState" where
  "rotate st = openNew (closeFile st)"

definition openExistingOrNew :: "LumberjackLogger \<Rightarrow> int \<Rightarrow> LJState \<Rightarrow> LJState" where
  "openExistingOrNew l writeLen st =
     (case cur st of
        Absent \<Rightarrow> openNew st
      | OnDisk sz \<Rightarrow> if sz + writeLen \<ge> lj_max l then rotate st else st\<lparr>cur := Opened sz\<rparr>
      | Opened sz \<Rightarrow> st)"

fun l_size :: "LJState \<Rightarrow> int" where
  "l_size st = (case cur st of Opened sz \<Rightarrow> sz | _ \<Rightarrow> 0)"

datatype write_error = ErrWriteTooLong

text \<open>
  \<^verbatim>\<open>Write\<close>: a write longer than the limit is refused; a writer without an open
  file opens one; the file is rotated before a write that would take it past the
  limit; then the bytes are written and counted.
\<close>

definition lj_Write ::
  "LumberjackLogger \<Rightarrow> int \<Rightarrow> LJState \<Rightarrow> (write_error + int) \<times> LJState" where
  "lj_Write l writeLen st =
     (if writeLen > lj_max l then (Inl ErrWriteTooLong, st)
      else
        let st1 = (case cur st of Opened sz \<Rightarrow> st | _ \<Rightarrow> openExistingOrNew l writeLen st);
            st2 = (if l_size st1 + writeLen > lj_max l then rotate st1 else st1)
        in (Inr writeLen, st2\<lparr>cur := Opened (l_size st2 + writeLen)\<rparr>))"

text \<open>A write on a \<^verbatim>\<open>WriteSyncer\<close> of logger.go; standard output has no file.\<close>

fun ws_Write :: "WriteSyncer \<Rightarrow> int \<Rightarrow> LJState \<Rightarrow> (write_error + int) \<times> LJState" where
  "ws_Write Stdout writeLen st = (Inr writeLen, st)"
| "ws_Write (FileSyncer l) writeLen st = lj_Write l writeLen st"

fun ws_Writes :: "WriteSyncer \<Rightarrow> int list \<Rightarrow> LJState \<Rightarrow> LJState" where
  "ws_Writes ws [] st = st"
| "ws_Writes ws (n # ns) st = ws_Writes ws ns (snd (ws_Write ws n st))"

section \<open>Sample inputs\<close>

definition sample_Entry :: Entry where
  "sample_Entry =
     \<lparr>ent_Level = 0, ent_Time = 1700000000, ent_LoggerName = [],
      ent_Message = ''started'', ent_Stack = [],
      ent_Caller_File = ''main.go'', ent_Caller_Line = 17\<rparr>"

text \<open>An encoder for the samples: the message and a newline.\<close>

definition sample_enc :: "Entry \<Rightarrow> string" where
  "sample_enc ent = ent_Message ent @ [CHR 0x0A]"

text \<open>Options that ask for neither standard output nor a file.\<close>

definition neither_Options :: Options where
  "neither_Options =
     \<lparr>NotStdout = True, Level = InfoLevel, Filename = [], MaxSize = 0,
      MaxBackups = 0, MaxAge = 0, Compress = False\<rparr>"

lemmas Level_defs =
  DebugLevel_def InfoLevel_def WarnLevel_def ErrorLevel_def
  DPanicLevel_def PanicLevel_def FatalLevel_def

section \<open>Facts about the operations\<close>

subsection \<open>The loop of hooksHandler\<close>

text \<open>
  After the loop every closure holds the same address, and the cell at that
  address holds the last element of the slice.
\<close>

lemma range_hooks_result:
  "range_hooks a hooks hp res =
     (res @ replicate (length hooks) (ResHook a),
      if hooks = [] then hp else hp[a := last hooks])"
  by (induction hooks arbitrary: hp res) (auto simp: replicate_app_Cons_same)

lemma hooksHandler_result:
  "hooksHandler hooks hp =
     (replicate (length hooks) (ResHook (length hp)),
      hp @ [if hooks = [] then None else last hooks])"
  by (simp add: hooksHandler_def range_hooks_result list_update_append)

text \<open>
  Calling \<open>n\<close> closures that hold the same address: \<open>n\<close> calls of the function in
  the cell, or a panic at the first call if the cell holds nil.
\<close>

lemma call_hooks_same_cell:
  "a < length hp \<Longrightarrow>
   call_hooks hp ent (replicate n (ResHook a)) =
     (case hp ! a of
        None \<Rightarrow> if n = 0 then Done [] else PanicAfter []
      | Some h \<Rightarrow> Done (replicate n (Invoked h (toLogInfo ent))))"
  by (induction n) (auto split: option.splits)

subsection \<open>The state after InitLogger\<close>

lemma logger_InitLogger:
  "logger (InitLogger opt hooks g) =
     Some \<lparr>core = treeCore opt, funcs = replicate (length hooks) (ResHook (length (heap g)))\<rparr>"
  by (simp add: InitLogger_def treeCore_def Let_def hooksHandler_result)

lemma heap_InitLogger:
  "heap (InitLogger opt hooks g) = heap g @ [if hooks = [] then None else last hooks]"
  by (simp add: InitLogger_def Let_def hooksHandler_result)

lemma fileWirtor_InitLogger: "fileWirtor (InitLogger opt hooks g) = Some (getLogWriter opt)"
  by (simp add: InitLogger_def Let_def hooksHandler_result)

lemma stdWirtor_InitLogger:
  "stdWirtor (InitLogger opt hooks g) =
     (if NotStdout opt \<and> Filename opt \<noteq> [] then stdWirtor g else Some Stdout)"
  by (simp add: InitLogger_def Let_def hooksHandler_result)

lemma Check_treeCore:
  "Check (treeCore opt) ent =
     (if Enabled (Level opt) (ent_Level ent)
      then map (\<lambda>w. \<lparr>out = w, minLevel = Level opt\<rparr>) (sinks (treeCore opt)) else [])"
  by (simp add: treeCore_def)

lemma sinks_treeCore_nonempty: "sinks (treeCore opt) \<noteq> []"
  by (simp add: treeCore_def)

lemma sinks_treeCore_subset: "set (sinks (treeCore opt)) \<subseteq> {getLogWriter opt, Stdout}"
  by (simp add: treeCore_def)

text \<open>
  An emission right after \<^verbatim>\<open>InitLogger\<close>. Below the minimum level: nothing. From
  the minimum level on: one write of the encoded entry per sink, in the order of
  the sinks; then, if hooks were given, as many calls as hooks were given, every
  one of them a call of the last hook with the \<^verbatim>\<open>LogInfo\<close> of the entry, or a
  panic at the first call if the last hook is nil.
\<close>

lemma log_at_InitLogger:
  "log_at enc l ent (InitLogger opt hooks g) =
     (if Level opt <=s l
      then (if hooks = []
            then Done (map (\<lambda>w. Wrote w (enc (ent\<lparr>ent_Level := l\<rparr>))) (sinks (treeCore opt)))
            else (case last hooks of
                    None \<Rightarrow>
                      PanicAfter
                        (map (\<lambda>w. Wrote w (enc (ent\<lparr>ent_Level := l\<rparr>))) (sinks (treeCore opt)))
                  | Some h \<Rightarrow>
                      Done
                        (map (\<lambda>w. Wrote w (enc (ent\<lparr>ent_Level := l\<rparr>))) (sinks (treeCore opt)) @
                         replicate (length hooks)
                           (Invoked h (toLogInfo (ent\<lparr>ent_Level := l\<rparr>))))))
      else Done [])"
  by (cases "hooks = []")
     (auto simp add: log_at_def logger_InitLogger heap_InitLogger write_entry_def Check_treeCore
        sinks_treeCore_nonempty call_hooks_same_cell Enabled_def comp_def nth_append
        split: option.splits)

subsection \<open>The order of the levels\<close>

lemma Level_chain:
  "DebugLevel <s InfoLevel \<and> InfoLevel <s WarnLevel \<and> WarnLevel <s ErrorLevel \<and>
   ErrorLevel <s DPanicLevel \<and> DPanicLevel <s PanicLevel \<and> PanicLevel <s FatalLevel"
  by (simp add: Level_defs word_sless_alt)

subsection \<open>Reachable states\<close>

lemma states_from_init_cases:
  "states_from init g \<Longrightarrow> \<exists>opt hooks g'. g = InitLogger opt hooks g'"
  by (induction rule: states_from.induct) (auto simp: init_def)

lemma states_from_zero_cases:
  "states_from zero_Globals g \<Longrightarrow>
     g = zero_Globals \<or> (\<exists>opt hooks g'. g = InitLogger opt hooks g')"
  by (induction rule: states_from.induct) auto

text \<open>
  \<^verbatim>\<open>init\<close> sets \<^verbatim>\<open>stdWirtor\<close> and no branch of \<^verbatim>\<open>InitLogger\<close> resets it to nil.
\<close>

lemma stdWirtor_states_from_init: "states_from init g \<Longrightarrow> stdWirtor g = Some Stdout"
  by (induction rule: states_from.induct)
     (simp_all add: init_def stdWirtor_InitLogger init_Options_def)

subsection \<open>Sprintln\<close>

lemma Sprintln_joined:
  "Sprintln dflt args =
     concat (map (\<lambda>a. dflt a @ '' '') (butlast args)) @
     (if args = [] then [] else dflt (last args)) @ [CHR 0x0A]"
  by (induction dflt args rule: Sprintln.induct) simp_all

subsection \<open>The size limit of the file writer\<close>

text \<open>
  With \<^verbatim>\<open>MaxSize\<close> 0 and non-negative write lengths, a sequence of writes that
  fits in 104857600 bytes after the current size does not rotate.
\<close>

lemma no_rotation_within_limit:
  "MaxSize opt = 0 \<Longrightarrow> \<forall>n\<in>set ns. 0 \<le> n \<Longrightarrow>
   (case cur st of
      Opened sz \<Rightarrow> 0 \<le> sz \<and> sz + sum_list ns \<le> 104857600
    | Absent \<Rightarrow> sum_list ns \<le> 104857600
    | OnDisk sz \<Rightarrow> False) \<Longrightarrow>
   rotations (ws_Writes (getLogWriter opt) ns st) = rotations st"
proof (induction ns arbitrary: st)
  case Nil
  then show ?case by simp
next
  case (Cons n ns)
  have n0: "0 \<le> n" and rest: "\<forall>n\<in>set ns. 0 \<le> n"
    using Cons.prems(2) by simp_all
  have s0: "0 \<le> sum_list ns"
    using rest by (simp add: sum_list_nonneg)
  let ?st' = "snd (ws_Write (getLogWriter opt) n st)"
  have a: "rotations ?st' = rotations st \<and>
     (case cur ?st' of
        Opened sz \<Rightarrow> 0 \<le> sz \<and> sz + sum_list ns \<le> 104857600
      | Absent \<Rightarrow> sum_list ns \<le> 104857600
      | OnDisk sz \<Rightarrow> False)"
    using Cons.prems(1,3) n0 s0
    by (cases "cur st")
       (auto simp add: getLogWriter_def lj_Write_def lj_max_def wrap64_def megabyte_def defaultMaxSize_def
          openExistingOrNew_def rotate_def)
  then show ?case
    using Cons.IH [OF Cons.prems(1) rest, of ?st'] by simp
qed

section \<open>The claims\<close>

text \<open>
  C1. Claimed: for every list of hooks passed to \<^verbatim>\<open>InitLogger\<close> and every accepted
  entry, each hook of the list is called exactly once with the entry's
  \<^verbatim>\<open>LogInfo\<close>, in list order, distinct hooks as distinct functions. The code does
  not do this: with the two hooks \<open>h1\<close> and \<open>h2\<close> registered on top of the default
  pipeline, an \<^verbatim>\<open>Info\<close> entry is written once to standard output and then \<open>h2\<close>
  is called twice and \<open>h1\<close> never, because both closures of \<^verbatim>\<open>hooksHandler\<close>
  read the one loop variable \<^verbatim>\<open>hook\<close>, which holds the last hook after the loop.
\<close>

theorem hooksHandler_calls_last_hook_only:
  "Info sample_enc sample_Entry (InitLogger init_Options [Some ''h1'', Some ''h2''] init) =
     Done [Wrote Stdout (''started'' @ [CHR 0x0A]),
           Invoked ''h2'' (toLogInfo sample_Entry),
           Invoked ''h2'' (toLogInfo sample_Entry)]"
  by (simp add: Info_def log_at_InitLogger init_Options_def Level_defs treeCore_def sample_enc_def
      sample_Entry_def word_sle_eq)

text \<open>
  C2. Claimed: standard output is a sink iff \<^verbatim>\<open>NotStdout\<close> is false, the file is a
  sink iff \<^verbatim>\<open>Filename\<close> is not empty, and with \<^verbatim>\<open>NotStdout\<close> true and
  \<^verbatim>\<open>Filename\<close> empty there is no sink and every write is discarded. The code does
  not do this: for these options \<^verbatim>\<open>InitLogger\<close> takes its last branch and builds
  the tee of standard output and the file writer (with the empty file name), and
  an accepted entry is written to both.
\<close>

theorem InitLogger_neither_sink_builds_tee:
  "NotStdout neither_Options \<and> Filename neither_Options = [] \<and>
   logger (InitLogger neither_Options [] (init :: string Globals)) =
     Some \<lparr>core = NewTee [\<lparr>out = Stdout, minLevel = InfoLevel\<rparr>,
                          \<lparr>out = getLogWriter neither_Options, minLevel = InfoLevel\<rparr>],
           funcs = []\<rparr> \<and>
   Info sample_enc sample_Entry (InitLogger neither_Options [] (init :: string Globals)) =
     Done [Wrote Stdout (''started'' @ [CHR 0x0A]),
           Wrote (getLogWriter neither_Options) (''started'' @ [CHR 0x0A])]"
  by (simp add: Info_def log_at_InitLogger logger_InitLogger neither_Options_def Level_defs
      treeCore_def sample_enc_def sample_Entry_def word_sle_eq)

text \<open>
  C3. Claimed: \<^verbatim>\<open>Pure\<close> and \<^verbatim>\<open>Puref\<close> write to exactly the writers that accepted
  leveled entries are written to, and to no other. The code does not do this: in
  the default pipeline of \<^verbatim>\<open>init\<close> (no file name) the only sink of a leveled
  entry is standard output, and \<^verbatim>\<open>Pure\<close> and \<^verbatim>\<open>Puref\<close> write to the file writer
  as well, since \<^verbatim>\<open>fileWirtor\<close> is assigned by every \<^verbatim>\<open>InitLogger\<close> call.
\<close>

theorem Pure_writes_to_unselected_writer:
  "Info sample_enc sample_Entry (init :: string Globals) =
     Done [Wrote Stdout (''started'' @ [CHR 0x0A])] \<and>
   Pure id [''started''] (init :: string Globals) =
     [Wrote (getLogWriter init_Options) (''started'' @ [CHR 0x0A]),
      Wrote Stdout (''started'' @ [CHR 0x0A])] \<and>
   Puref (\<lambda>msg args. msg) ''started'' [] (init :: string Globals) =
     [Wrote (getLogWriter init_Options) (''started'' @ [CHR 0x0A]),
      Wrote Stdout (''started'' @ [CHR 0x0A])] \<and>
   getLogWriter init_Options \<noteq> Stdout"
  by (simp add: Info_def init_def log_at_InitLogger init_Options_def Level_defs treeCore_def
      sample_enc_def sample_Entry_def word_sle_eq Pure_def Puref_def write_raw_def
      fileWirtor_InitLogger stdWirtor_InitLogger getLogWriter_def)

text \<open>
  C4. Claimed: with \<^verbatim>\<open>MaxSize\<close> 0 the file writer never rotates, whatever is
  written. This fails: \<^verbatim>\<open>getLogWriter\<close> passes the 0 on, and the file writer
  reads 0 as its default of 100 megabytes. With the options of \<^verbatim>\<open>init\<close>
  (\<^verbatim>\<open>MaxSize\<close> 0), two writes of 60 megabytes (62914560 bytes) each, starting
  without a log file, rotate the file once.
\<close>

theorem MaxSize_zero_rotates_counterexample:
  "MaxSize init_Options = 0 \<and>
   rotations (ws_Writes (getLogWriter init_Options) [62914560, 62914560]
                \<lparr>cur = Absent, rotations = 0\<rparr>) = 1"
  by (simp add: init_Options_def getLogWriter_def lj_Write_def lj_max_def wrap64_def megabyte_def
      defaultMaxSize_def openExistingOrNew_def rotate_def)

text \<open>
  C4, as amended. With \<^verbatim>\<open>MaxSize\<close> 0 the file writer behaves as with
  \<^verbatim>\<open>MaxSize\<close> 100: the limit is 104857600 bytes. A write on the open file rotates
  it exactly when the write is no longer than the limit and the file's size plus
  the length of the write is above the limit; writes of non-negative lengths
  that sum to at most the limit, starting without a log file, do not rotate.
\<close>

theorem MaxSize_zero_is_100_megabytes:
  "MaxSize opt = 0 \<Longrightarrow>
   ws_Write (getLogWriter opt) n st = ws_Write (getLogWriter (opt\<lparr>MaxSize := 100\<rparr>)) n st \<and>
   rotations (snd (ws_Write (getLogWriter opt) n \<lparr>cur = Opened sz, rotations = r\<rparr>)) =
     (if n \<le> 104857600 \<and> 104857600 < sz + n then Suc r else r) \<and>
   ((\<forall>n\<in>set ns. 0 \<le> n) \<and> sum_list ns \<le> 104857600 \<longrightarrow>
      rotations (ws_Writes (getLogWriter opt) ns \<lparr>cur = Absent, rotations = 0\<rparr>) = 0)"
proof -
  assume z: "MaxSize opt = 0"
  have a: "ws_Write (getLogWriter opt) n st =
      ws_Write (getLogWriter (opt\<lparr>MaxSize := 100\<rparr>)) n st"
    using z
    by (simp add: getLogWriter_def lj_Write_def lj_max_def wrap64_def megabyte_def defaultMaxSize_def
        openExistingOrNew_def Let_def split: LogFile.splits)
  have b: "rotations (snd (ws_Write (getLogWriter opt) n \<lparr>cur = Opened sz, rotations = r\<rparr>)) =
      (if n \<le> 104857600 \<and> 104857600 < sz + n then Suc r else r)"
    using z
    by (simp add: getLogWriter_def lj_Write_def lj_max_def wrap64_def megabyte_def defaultMaxSize_def
        rotate_def)
  have c: "(\<forall>n\<in>set ns. 0 \<le> n) \<and> sum_list ns \<le> 104857600 \<longrightarrow>
      rotations (ws_Writes (getLogWriter opt) ns \<lparr>cur = Absent, rotations = 0\<rparr>) = 0"
    using no_rotation_within_limit [OF z, of ns "\<lparr>cur = Absent, rotations = 0\<rparr>"] by simp
  show ?thesis
    using a b c by blast
qed

theorem MaxSize_zero_is_100_megabytes_witness:
  "MaxSize init_Options = 0 \<and>
   rotations (snd (ws_Write (getLogWriter init_Options) 4857601
                     \<lparr>cur = Opened 100000000, rotations = 0\<rparr>)) = 1 \<and>
   rotations (snd (ws_Write (getLogWriter init_Options) 4857600
                     \<lparr>cur = Opened 100000000, rotations = 0\<rparr>)) = 0 \<and>
   rotations (ws_Writes (getLogWriter init_Options) [104857000, 600]
                \<lparr>cur = Absent, rotations = 0\<rparr>) = 0"
proof -
  have z: "MaxSize init_Options = 0"
    by (simp add: init_Options_def)
  show ?thesis
    using z
      MaxSize_zero_is_100_megabytes [OF z, of 4857601 "\<lparr>cur = Absent, rotations = 0\<rparr>" 100000000 0 "[104857000, 600]"]
      MaxSize_zero_is_100_megabytes [OF z, of 4857600 "\<lparr>cur = Absent, rotations = 0\<rparr>" 100000000 0 "[104857000, 600]"]
    by simp
qed


text \<open>
  C5. In every state that a program importing the package can observe, \<^verbatim>\<open>Pure\<close>
  makes two writes and nothing else: one to the file writer and one to standard
  output, each of exactly the bytes of \<^verbatim>\<open>fmt.Sprintln(args...)\<close>; these are the
  default forms of the arguments, each but the last followed by one space, then
  a newline, with nothing before or after. No hook is called, and every sink of
  the current logger is written to exactly once.
\<close>

theorem Pure_writes_joined_arguments_only:
  assumes "states_from init g"
  shows "\<exists>fw lg. fileWirtor g = Some fw \<and> fw \<noteq> Stdout \<and> logger g = Some lg \<and>
           Pure dflt args g = [Wrote fw (Sprintln dflt args), Wrote Stdout (Sprintln dflt args)] \<and>
           hook_calls (Pure dflt args g) = [] \<and>
           (\<forall>w\<in>set (sinks (core lg)). count_list (writers (Pure dflt args g)) w = 1) \<and>
           Sprintln dflt args =
             concat (map (\<lambda>a. dflt a @ '' '') (butlast args)) @
             (if args = [] then [] else dflt (last args)) @ [CHR 0x0A]"
proof -
  obtain opt hooks g' where g: "g = InitLogger opt hooks g'"
    using states_from_init_cases [OF assms] by blast
  have sw: "stdWirtor g = Some Stdout"
    by (rule stdWirtor_states_from_init [OF assms])
  have fw: "fileWirtor g = Some (getLogWriter opt)"
    by (simp add: g fileWirtor_InitLogger)
  have ne: "getLogWriter opt \<noteq> Stdout"
    by (simp add: getLogWriter_def)
  have lg: "logger g =
      Some \<lparr>core = treeCore opt, funcs = replicate (length hooks) (ResHook (length (heap g')))\<rparr>"
    by (simp add: g logger_InitLogger)
  have p: "Pure dflt args g =
      [Wrote (getLogWriter opt) (Sprintln dflt args), Wrote Stdout (Sprintln dflt args)]"
    by (simp add: Pure_def write_raw_def fw sw)
  have w: "writers (Pure dflt args g) = [getLogWriter opt, Stdout]"
    by (simp add: p writers_def)
  have h: "hook_calls (Pure dflt args g) = []"
    by (simp add: p hook_calls_def)
  have c: "\<forall>w\<in>set (sinks (treeCore opt)). count_list [getLogWriter opt, Stdout] w = 1"
    using sinks_treeCore_subset [of opt] ne by auto
  show ?thesis
    using fw ne lg p h c w Sprintln_joined [of dflt args] by simp
qed

theorem Pure_writes_joined_arguments_only_witness:
  "Pure id [''a'', ''1'', ''b''] (InitLogger (GetDefault ''app.log'') [Some ''h''] init) =
     [Wrote (getLogWriter (GetDefault ''app.log'')) (''a 1 b'' @ [CHR 0x0A]),
      Wrote Stdout (''a 1 b'' @ [CHR 0x0A])] \<and>
   hook_calls (Pure id [''a'', ''1'', ''b''] (InitLogger (GetDefault ''app.log'') [Some ''h''] init)) = []"
proof -
  have r: "states_from init (InitLogger (GetDefault ''app.log'') [Some ''h''] init)"
    by (intro states_from.intros)
  show ?thesis
    using Pure_writes_joined_arguments_only [OF r, of id "[''a'', ''1'', ''b'']"]
    by (auto simp: fileWirtor_InitLogger)
qed


text \<open>
  C7. In every state of the package variables, before or after any number of
  \<^verbatim>\<open>InitLogger\<close> calls, \<^verbatim>\<open>GetLogWirter\<close> returns (it does not panic), its error is
  non-nil exactly when \<^verbatim>\<open>logger\<close> is nil, when \<^verbatim>\<open>logger\<close> is not nil it returns a
  writer and a nil error, and the state after the call is the state before it.
\<close>

theorem GetLogWirter_error_iff_logger_nil:
  assumes "states_from zero_Globals g"
  shows "snd (GetLogWirter g) = g \<and>
         (\<exists>w e. fst (GetLogWirter g) = Returned (w, e) \<and>
                 ((e \<noteq> None) = (logger g = None)) \<and>
                 (logger g \<noteq> None \<longrightarrow> w \<noteq> None \<and> e = None))"
  using states_from_zero_cases [OF assms]
  by (auto simp: GetLogWirter_def zero_Globals_def logger_InitLogger fileWirtor_InitLogger
      split: option.splits)

theorem GetLogWirter_error_iff_logger_nil_witness:
  "fst (GetLogWirter (zero_Globals :: string Globals)) = Returned (None, Some ErrNotInitialised) \<and>
   fst (GetLogWirter (InitLogger (GetDefault ''app.log'') [] (zero_Globals :: string Globals))) =
     Returned (Some (getLogWriter (GetDefault ''app.log'')), None) \<and>
   snd (GetLogWirter (InitLogger (GetDefault ''app.log'') [] (zero_Globals :: string Globals))) =
     InitLogger (GetDefault ''app.log'') [] zero_Globals"
proof -
  have r0: "states_from zero_Globals (zero_Globals :: string Globals)"
    by (rule states_from.start)
  have r1: "states_from zero_Globals
      (InitLogger (GetDefault ''app.log'') [] (zero_Globals :: string Globals))"
    by (intro states_from.intros)
  show ?thesis
    using GetLogWirter_error_iff_logger_nil [OF r0] GetLogWirter_error_iff_logger_nil [OF r1]
    by (simp add: GetLogWirter_def zero_Globals_def logger_InitLogger fileWirtor_InitLogger)
qed

text \<open>
  C8. For every file name \<open>f\<close>, \<^verbatim>\<open>GetDefault\<close> returns the options with that file
  name, \<^verbatim>\<open>MaxSize\<close> 100, \<^verbatim>\<open>MaxBackups\<close> 10, \<^verbatim>\<open>MaxAge\<close> 30, \<^verbatim>\<open>Compress\<close> false,
  \<^verbatim>\<open>NotStdout\<close> false and \<^verbatim>\<open>Level\<close> \<^verbatim>\<open>InfoLevel\<close> (the zero value of the type);
  the result is a function of \<open>f\<close> alone.
\<close>

theorem GetDefault_value:
  "GetDefault f =
     \<lparr>NotStdout = False, Level = InfoLevel, Filename = f, MaxSize = 100,
      MaxBackups = 10, MaxAge = 30, Compress = False\<rparr>"
  by (simp add: GetDefault_def InfoLevel_def)



text \<open>
  C10. After \<^verbatim>\<open>InitLogger\<close> with options \<open>opt\<close>, from any state, \<^verbatim>\<open>GetLogWirter\<close>
  returns the file writer that \<^verbatim>\<open>getLogWriter\<close> builds from \<open>opt\<close>, with a nil
  error, and that writer is not the writer of standard output. In particular,
  with an empty file name and \<^verbatim>\<open>NotStdout\<close> false the only sink of the logger is
  standard output, and the writer returned is a file writer whose file name is
  empty.
\<close>

theorem GetLogWirter_returns_file_writer:
  "fst (GetLogWirter (InitLogger opt hooks g)) = Returned (Some (getLogWriter opt), None) \<and>
   getLogWriter opt \<noteq> Stdout \<and>
   (Filename opt = [] \<and> \<not> NotStdout opt \<longrightarrow>
      (\<exists>lg l. logger (InitLogger opt hooks g) = Some lg \<and> sinks (core lg) = [Stdout] \<and>
              getLogWriter opt = FileSyncer l \<and> lj_Filename l = []))"
  by (simp add: GetLogWirter_def logger_InitLogger fileWirtor_InitLogger getLogWriter_def
      treeCore_def)

theorem GetLogWirter_returns_file_writer_witness:
  "fst (GetLogWirter (InitLogger init_Options [] (zero_Globals :: string Globals))) =
     Returned (Some (FileSyncer \<lparr>lj_Filename = [], lj_MaxSize = 0, lj_MaxBackups = 0,
                                 lj_MaxAge = 0, lj_Compress = False\<rparr>), None) \<and>
   Filename init_Options = [] \<and> \<not> NotStdout init_Options \<and>
   sinks (core (the (logger (InitLogger init_Options [] (zero_Globals :: string Globals))))) =
     [Stdout]"
  using GetLogWirter_returns_file_writer [of init_Options "[]" "zero_Globals :: string Globals"]
  by (auto simp: init_Options_def getLogWriter_def)


end
